theory Spec2Isabelle
  imports Main "HOL-Library.Word" "HOL-Library.AList"
begin

section \<open>The asset contract of chaincode/smartcontract.go\<close>

text \<open>
  The contract keeps records of type \<open>Asset\<close> in the world state of a ledger. It reaches
  the world state only through the stub of its transaction context (\<open>GetState\<close>,
  \<open>PutState\<close>, \<open>DelState\<close>, \<open>GetStateByRange\<close>) and turns records into bytes and
  back with Go's \<open>encoding/json\<close>. The stub and the JSON package are not part of the
  repository; they are modelled here as far as the contract uses them.
\<close>

subsection \<open>Data model\<close>

text \<open>Go's \<open>[]byte\<close> and Go's \<open>string\<close> are both sequences of bytes.\<close>

type_synonym bytes = string

text \<open>
  Go's \<open>int\<close>, 64 bits wide on the platforms the contract runs on (\<open>sint\<close> reads the
  signed value). The contract only stores and compares these numbers.
\<close>

type_synonym go_int = "64 word"

text \<open>
  The struct \<open>Asset\<close>, fields in the order of their declaration:
  \<^verbatim>\<open>
  type Asset struct {
      webfilterlist int    `json:"webfilterlist"`
      blocklist     string `json:"blocklist"`
      allowlist     string `json:"allowlist"`
      attribute1    string `json:"attribute1"`
      attribute2    int    `json:"attribute2"`
  }
  \<close>
\<close>

record Asset =
  webfilterlist :: go_int
  blocklist :: string
  allowlist :: string
  attribute1 :: string
  attribute2 :: go_int

text \<open>The zero value of the struct, which \<open>var asset Asset\<close> declares.\<close>

definition Asset_zero :: Asset where
  "Asset_zero = \<lparr>webfilterlist = 0, blocklist = [], allowlist = [], attribute1 = [], attribute2 = 0\<rparr>"

text \<open>
  The errors the contract returns. The Go code builds them with \<open>fmt.Errorf\<close> or passes on
  the error of the stub or of the JSON package:
  \<^item> \<open>StoreReadError m\<close>: "failed to read from world state: m", \<open>m\<close> the error of \<open>GetState\<close>;
  \<^item> \<open>NotFoundError k\<close>: "the asset k does not exist";
  \<^item> \<open>DuplicateKeyError k\<close>: "the asset k already exists";
  \<^item> \<open>StoreWriteError m\<close>: "failed to put to world state. m", \<open>m\<close> the error of \<open>PutState\<close>
    (the wrapping of \<open>InitLedger\<close>);
  \<^item> \<open>StubError m\<close>: an error of the stub that the contract returns as it is;
  \<^item> \<open>SyntaxError\<close> and \<open>UnmarshalTypeError v\<close>: the two errors of \<open>json.Unmarshal\<close>, for
    bytes that are not JSON and for a JSON value \<open>v\<close> that does not fit a struct.
\<close>

datatype error =
    StoreReadError string
  | NotFoundError string
  | DuplicateKeyError string
  | StoreWriteError string
  | StubError string
  | SyntaxError
  | UnmarshalTypeError string

subsection \<open>encoding/json: which fields of a struct take part\<close>

text \<open>
  \<open>encoding/json\<close> reads a struct through reflection. For \<open>Marshal\<close>: "each exported
  struct field becomes a member of the object"; for \<open>Unmarshal\<close>: "Unmarshal will only
  set exported fields of the struct". A field is exported when its Go name begins with an
  upper-case letter; a \<open>json\<close> tag renames a member, it does not export the field.
\<close>

datatype go_value = GoInt go_int | GoString string

record structField =
  fname :: string
  ftag :: string
  fget :: "Asset \<Rightarrow> go_value"

text \<open>The five fields of \<open>Asset\<close> with their tags, in declaration order.\<close>

definition Asset_fields :: "structField list" where
  "Asset_fields =
    [\<lparr>fname = ''webfilterlist'', ftag = ''webfilterlist'', fget = (\<lambda>a. GoInt (webfilterlist a))\<rparr>,
     \<lparr>fname = ''blocklist'', ftag = ''blocklist'', fget = (\<lambda>a. GoString (blocklist a))\<rparr>,
     \<lparr>fname = ''allowlist'', ftag = ''allowlist'', fget = (\<lambda>a. GoString (allowlist a))\<rparr>,
     \<lparr>fname = ''attribute1'', ftag = ''attribute1'', fget = (\<lambda>a. GoString (attribute1 a))\<rparr>,
     \<lparr>fname = ''attribute2'', ftag = ''attribute2'', fget = (\<lambda>a. GoInt (attribute2 a))\<rparr>]"

text \<open>
  Go's rule for an exported identifier, on names whose first character is ASCII (as all names
  of the source are): the first byte is one of \<open>A\<close> to \<open>Z\<close>.
\<close>

definition isExported :: "string \<Rightarrow> bool" where
  "isExported name =
    (case name of [] \<Rightarrow> False | c # _ \<Rightarrow> 65 \<le> (of_char c :: nat) \<and> (of_char c :: nat) \<le> 90)"

text \<open>
  The fields \<open>encoding/json\<close> works with (its \<open>typeFields\<close>): the exported ones, in
  declaration order. \<open>Asset\<close> embeds no struct and has no tag \<open>-\<close> or option, so the other
  rules of \<open>typeFields\<close> do not apply to it.
\<close>

definition typeFields :: "structField list \<Rightarrow> structField list" where
  "typeFields fs = filter (\<lambda>f. isExported (fname f)) fs"

subsection \<open>json.Marshal\<close>

text \<open>
  The struct encoder writes \<open>{\<close>, the members separated by commas, and \<open>}\<close>. A member is
  the tag between quotes, a colon, and the encoded value of the field. How a string or an
  int is rendered is left to the parameter \<open>enc\<close>: the escaping of strings differs between
  Go releases, and no theorem below depends on it.
\<close>

definition encodeMember :: "(go_value \<Rightarrow> bytes) \<Rightarrow> Asset \<Rightarrow> structField \<Rightarrow> bytes" where
  "encodeMember enc a f = [CHR 0x22] @ ftag f @ [CHR 0x22] @ '':'' @ enc (fget f a)"

fun joinMembers :: "bytes list \<Rightarrow> bytes" where
  "joinMembers [] = []"
| "joinMembers [m] = m"
| "joinMembers (m # ms) = m @ '','' @ joinMembers ms"

definition encodeStruct :: "(go_value \<Rightarrow> bytes) \<Rightarrow> structField list \<Rightarrow> Asset \<Rightarrow> bytes" where
  "encodeStruct enc fs a = ''{'' @ joinMembers (map (encodeMember enc a) (typeFields fs)) @ ''}''"

text \<open>
  \<open>json.Marshal(asset)\<close>. Encoding a struct of strings and ints has no error case; the
  result keeps Go's pair of bytes and error.
\<close>

definition json_Marshal :: "(go_value \<Rightarrow> bytes) \<Rightarrow> Asset \<Rightarrow> error + bytes" where
  "json_Marshal enc a = Inr (encodeStruct enc Asset_fields a)"

subsection \<open>json.Unmarshal: the syntax check\<close>

text \<open>
  \<open>json.Unmarshal\<close> first runs \<open>checkValid\<close>: the scanner of \<open>encoding/json\<close>, a state
  machine that takes one byte at a time. Its state is the current step function, the stack
  of enclosing objects and arrays (the innermost first here), and \<open>endTop\<close>, set once the
  top-level value is complete. The step \<open>stateError\<close> stands for a scanner whose \<open>err\<close> is
  set.
\<close>

datatype parseKind = parseObjectKey | parseObjectValue | parseArrayValue

datatype scanState =
    stateBeginValueOrEmpty | stateBeginValue | stateBeginStringOrEmpty | stateBeginString
  | stateEndValue | stateEndTop
  | stateInString | stateInStringEsc | stateInStringEscU | stateInStringEscU1
  | stateInStringEscU12 | stateInStringEscU123
  | stateNeg | state1 | state0 | stateDot | stateDot0 | stateE | stateESign | stateE0
  | stateT | stateTr | stateTru | stateF | stateFa | stateFal | stateFals
  | stateN | stateNu | stateNul
  | stateError

record scanner =
  step :: scanState
  endTop :: bool
  parseState :: "parseKind list"

definition maxNestingDepth :: nat where
  "maxNestingDepth = 10000"

definition isSpace :: "char \<Rightarrow> bool" where
  "isSpace c = (c = CHR '' '' \<or> c = CHR 0x09 \<or> c = CHR 0x0D \<or> c = CHR 0x0A)"

definition isDigit :: "char \<Rightarrow> bool" where
  "isDigit c = (48 \<le> (of_char c :: nat) \<and> (of_char c :: nat) \<le> 57)"

definition isDigit19 :: "char \<Rightarrow> bool" where
  "isDigit19 c = (49 \<le> (of_char c :: nat) \<and> (of_char c :: nat) \<le> 57)"

definition isHex :: "char \<Rightarrow> bool" where
  "isHex c = (isDigit c
     \<or> (97 \<le> (of_char c :: nat) \<and> (of_char c :: nat) \<le> 102)
     \<or> (65 \<le> (of_char c :: nat) \<and> (of_char c :: nat) \<le> 70))"

definition scanFail :: "scanner \<Rightarrow> scanner" where
  "scanFail s = s\<lparr>step := stateError\<rparr>"

definition goto :: "scanState \<Rightarrow> scanner \<Rightarrow> scanner" where
  "goto st s = s\<lparr>step := st\<rparr>"

definition pushParseState :: "parseKind \<Rightarrow> scanner \<Rightarrow> scanner" where
  "pushParseState newParseState s =
    (let s' = s\<lparr>parseState := newParseState # parseState s\<rparr>
     in if length (parseState s') \<le> maxNestingDepth then s' else scanFail s')"

text \<open>\<open>popParseState\<close>, on the stack that is left once the innermost entry is gone.\<close>

definition popParseState :: "parseKind list \<Rightarrow> scanner \<Rightarrow> scanner" where
  "popParseState rest s =
    (if rest = [] then s\<lparr>parseState := rest, step := stateEndTop, endTop := True\<rparr>
     else s\<lparr>parseState := rest, step := stateEndValue\<rparr>)"

text \<open>
  After the top-level value only white space may follow. (Go notes the error at the first
  other byte and reports it at the next byte or at the end of the input.)
\<close>

definition stateEndTop_step :: "scanner \<Rightarrow> char \<Rightarrow> scanner" where
  "stateEndTop_step s c = (if isSpace c then s else scanFail s)"

definition stateEndValue_step :: "scanner \<Rightarrow> char \<Rightarrow> scanner" where
  "stateEndValue_step s c =
    (case parseState s of
       [] \<Rightarrow> stateEndTop_step (s\<lparr>step := stateEndTop, endTop := True\<rparr>) c
     | ps # rest \<Rightarrow>
         if isSpace c then goto stateEndValue s
         else (case ps of
           parseObjectKey \<Rightarrow>
             if c = CHR '':'' then goto stateBeginValue (s\<lparr>parseState := parseObjectValue # rest\<rparr>)
             else scanFail s
         | parseObjectValue \<Rightarrow>
             if c = CHR '','' then goto stateBeginString (s\<lparr>parseState := parseObjectKey # rest\<rparr>)
             else if c = CHR ''}'' then popParseState rest s
             else scanFail s
         | parseArrayValue \<Rightarrow>
             if c = CHR '','' then goto stateBeginValue s
             else if c = CHR '']'' then popParseState rest s
             else scanFail s))"

definition stateBeginValue_step :: "scanner \<Rightarrow> char \<Rightarrow> scanner" where
  "stateBeginValue_step s c =
    (if isSpace c then s
     else if c = CHR ''{'' then pushParseState parseObjectKey (goto stateBeginStringOrEmpty s)
     else if c = CHR ''['' then pushParseState parseArrayValue (goto stateBeginValueOrEmpty s)
     else if c = CHR 0x22 then goto stateInString s
     else if c = CHR ''-'' then goto stateNeg s
     else if c = CHR ''0'' then goto state0 s
     else if c = CHR ''t'' then goto stateT s
     else if c = CHR ''f'' then goto stateF s
     else if c = CHR ''n'' then goto stateN s
     else if isDigit19 c then goto state1 s
     else scanFail s)"

definition stateBeginString_step :: "scanner \<Rightarrow> char \<Rightarrow> scanner" where
  "stateBeginString_step s c =
    (if isSpace c then s
     else if c = CHR 0x22 then goto stateInString s
     else scanFail s)"

definition state0_step :: "scanner \<Rightarrow> char \<Rightarrow> scanner" where
  "state0_step s c =
    (if c = CHR ''.'' then goto stateDot s
     else if c = CHR ''e'' \<or> c = CHR ''E'' then goto stateE s
     else stateEndValue_step s c)"

definition stateESign_step :: "scanner \<Rightarrow> char \<Rightarrow> scanner" where
  "stateESign_step s c = (if isDigit c then goto stateE0 s else scanFail s)"

text \<open>One byte: the scanner's \<open>s.step(s, c)\<close>.\<close>

definition scanByte :: "scanner \<Rightarrow> char \<Rightarrow> scanner" where
  "scanByte s c =
    (case step s of
       stateBeginValueOrEmpty \<Rightarrow>
         if isSpace c then s
         else if c = CHR '']'' then stateEndValue_step s c
         else stateBeginValue_step s c
     | stateBeginValue \<Rightarrow> stateBeginValue_step s c
     | stateBeginStringOrEmpty \<Rightarrow>
         if isSpace c then s
         else if c = CHR ''}''
           then stateEndValue_step (s\<lparr>parseState := parseObjectValue # tl (parseState s)\<rparr>) c
         else stateBeginString_step s c
     | stateBeginString \<Rightarrow> stateBeginString_step s c
     | stateEndValue \<Rightarrow> stateEndValue_step s c
     | stateEndTop \<Rightarrow> stateEndTop_step s c
     | stateInString \<Rightarrow>
         if c = CHR 0x22 then goto stateEndValue s
         else if c = CHR 0x5C then goto stateInStringEsc s
         else if (of_char c :: nat) < 32 then scanFail s
         else s
     | stateInStringEsc \<Rightarrow>
         if c = CHR ''b'' \<or> c = CHR ''f'' \<or> c = CHR ''n'' \<or> c = CHR ''r'' \<or> c = CHR ''t''
            \<or> c = CHR 0x5C \<or> c = CHR ''/'' \<or> c = CHR 0x22 then goto stateInString s
         else if c = CHR ''u'' then goto stateInStringEscU s
         else scanFail s
     | stateInStringEscU \<Rightarrow> if isHex c then goto stateInStringEscU1 s else scanFail s
     | stateInStringEscU1 \<Rightarrow> if isHex c then goto stateInStringEscU12 s else scanFail s
     | stateInStringEscU12 \<Rightarrow> if isHex c then goto stateInStringEscU123 s else scanFail s
     | stateInStringEscU123 \<Rightarrow> if isHex c then goto stateInString s else scanFail s
     | stateNeg \<Rightarrow>
         if c = CHR ''0'' then goto state0 s
         else if isDigit19 c then goto state1 s
         else scanFail s
     | state1 \<Rightarrow> if isDigit c then goto state1 s else state0_step s c
     | state0 \<Rightarrow> state0_step s c
     | stateDot \<Rightarrow> if isDigit c then goto stateDot0 s else scanFail s
     | stateDot0 \<Rightarrow>
         if isDigit c then s
         else if c = CHR ''e'' \<or> c = CHR ''E'' then goto stateE s
         else stateEndValue_step s c
     | stateE \<Rightarrow>
         if c = CHR ''+'' \<or> c = CHR ''-'' then goto stateESign s
         else stateESign_step s c
     | stateESign \<Rightarrow> stateESign_step s c
     | stateE0 \<Rightarrow> if isDigit c then s else stateEndValue_step s c
     | stateT \<Rightarrow> if c = CHR ''r'' then goto stateTr s else scanFail s
     | stateTr \<Rightarrow> if c = CHR ''u'' then goto stateTru s else scanFail s
     | stateTru \<Rightarrow> if c = CHR ''e'' then goto stateEndValue s else scanFail s
     | stateF \<Rightarrow> if c = CHR ''a'' then goto stateFa s else scanFail s
     | stateFa \<Rightarrow> if c = CHR ''l'' then goto stateFal s else scanFail s
     | stateFal \<Rightarrow> if c = CHR ''s'' then goto stateFals s else scanFail s
     | stateFals \<Rightarrow> if c = CHR ''e'' then goto stateEndValue s else scanFail s
     | stateN \<Rightarrow> if c = CHR ''u'' then goto stateNu s else scanFail s
     | stateNu \<Rightarrow> if c = CHR ''l'' then goto stateNul s else scanFail s
     | stateNul \<Rightarrow> if c = CHR ''l'' then goto stateEndValue s else scanFail s
     | stateError \<Rightarrow> s)"

definition scanner_reset :: scanner where
  "scanner_reset = \<lparr>step = stateBeginValue, endTop = False, parseState = []\<rparr>"

fun scanBytes :: "scanner \<Rightarrow> bytes \<Rightarrow> scanner" where
  "scanBytes s [] = s"
| "scanBytes s (c # cs) = scanBytes (scanByte s c) cs"

text \<open>
  \<open>checkValid\<close>: all bytes through the scanner, then \<open>eof\<close>, which feeds one space to a
  scanner that has not yet seen the end of the top-level value. True when the bytes are
  one JSON value.
\<close>

definition checkValid :: "bytes \<Rightarrow> bool" where
  "checkValid data =
    (let s = scanBytes scanner_reset data in
     if step s = stateError then False
     else if endTop s then True
     else endTop (scanByte s (CHR '' '')))"

subsection \<open>json.Unmarshal into an Asset\<close>

text \<open>
  After the syntax check the decoder looks at the first byte of the value. An object is
  walked member by member, each key is looked up among \<open>typeFields\<close> of the destination
  and the value of an unknown key is skipped; \<open>null\<close> leaves a struct as it is; an array,
  a string, a number or a boolean cannot be stored in a struct. The destination is the
  fresh \<open>var asset Asset\<close> of the caller. Since no field of \<open>Asset\<close> is among its
  \<open>typeFields\<close> (lemma \<open>typeFields_Asset\<close> below), every member of an object is
  skipped and the destination keeps its zero value.
\<close>

fun decodeValue :: "bytes \<Rightarrow> error + Asset" where
  "decodeValue [] = Inl SyntaxError"
| "decodeValue (c # cs) =
    (if isSpace c then decodeValue cs
     else if c = CHR ''{'' then Inr Asset_zero
     else if c = CHR ''n'' then Inr Asset_zero
     else if c = CHR ''['' then Inl (UnmarshalTypeError ''array'')
     else if c = CHR 0x22 then Inl (UnmarshalTypeError ''string'')
     else if c = CHR ''t'' \<or> c = CHR ''f'' then Inl (UnmarshalTypeError ''bool'')
     else Inl (UnmarshalTypeError ''number''))"

definition json_Unmarshal :: "bytes \<Rightarrow> error + Asset" where
  "json_Unmarshal data = (if checkValid data then decodeValue data else Inl SyntaxError)"

subsection \<open>The stub and the world state\<close>

text \<open>
  The world state maps keys to values; it is an association list, whose order is the order
  in which a range query returns the entries (an order of the store, not of the contract).
  A missing key reads as Go's \<open>nil\<close>, here \<open>None\<close>.
\<close>

type_synonym worldState = "(string \<times> bytes) list"

text \<open>
  What the contract cannot decide itself is a parameter: how \<open>encoding/json\<close> renders a
  member value, and, for each call of the stub, whether it fails and with which message.
\<close>

record platform =
  encodeValue :: "go_value \<Rightarrow> bytes"
  getStateErr :: "string \<Rightarrow> string option"
  putStateErr :: "string \<Rightarrow> bytes \<Rightarrow> string option"
  delStateErr :: "string \<Rightarrow> string option"
  rangeErr :: "string option"
  nextErr :: "string \<Rightarrow> string option"

definition GetState :: "platform \<Rightarrow> string \<Rightarrow> worldState \<Rightarrow> string + bytes option" where
  "GetState h key w = (case getStateErr h key of Some m \<Rightarrow> Inl m | None \<Rightarrow> Inr (map_of w key))"

definition PutState :: "platform \<Rightarrow> string \<Rightarrow> bytes \<Rightarrow> worldState \<Rightarrow> (string + unit) \<times> worldState" where
  "PutState h key val w =
    (case putStateErr h key val of Some m \<Rightarrow> (Inl m, w) | None \<Rightarrow> (Inr (), AList.update key val w))"

definition DelState :: "platform \<Rightarrow> string \<Rightarrow> worldState \<Rightarrow> (string + unit) \<times> worldState" where
  "DelState h key w =
    (case delStateErr h key of Some m \<Rightarrow> (Inl m, w) | None \<Rightarrow> (Inr (), AList.delete key w))"

text \<open>\<open>GetStateByRange("", "")\<close>: an iterator over all entries.\<close>

definition GetStateByRange :: "platform \<Rightarrow> worldState \<Rightarrow> string + (string \<times> bytes) list" where
  "GetStateByRange h w = (case rangeErr h of Some m \<Rightarrow> Inl m | None \<Rightarrow> Inr w)"

subsection \<open>The operations of the contract\<close>

text \<open>
  An operation that writes returns its Go result and the world state with the writes it
  has issued. (The ledger applies the writes of a transaction only when the operation
  returns no error.)
\<close>

definition AssetExists :: "platform \<Rightarrow> string \<Rightarrow> worldState \<Rightarrow> error + bool" where
  "AssetExists h key w =
    (case GetState h key w of
       Inl m \<Rightarrow> Inl (StoreReadError m)
     | Inr assetJSON \<Rightarrow> Inr (assetJSON \<noteq> None))"

definition ReadAsset :: "platform \<Rightarrow> string \<Rightarrow> worldState \<Rightarrow> error + Asset" where
  "ReadAsset h key w =
    (case GetState h key w of
       Inl m \<Rightarrow> Inl (StoreReadError m)
     | Inr None \<Rightarrow> Inl (NotFoundError key)
     | Inr (Some assetJSON) \<Rightarrow> json_Unmarshal assetJSON)"

text \<open>The last two steps of \<open>CreateAsset\<close> and \<open>UpdateAsset\<close>: marshal the record, put it.\<close>

definition marshalAndPut :: "platform \<Rightarrow> string \<Rightarrow> Asset \<Rightarrow> worldState \<Rightarrow> (error + unit) \<times> worldState" where
  "marshalAndPut h key asset w =
    (case json_Marshal (encodeValue h) asset of
       Inl e \<Rightarrow> (Inl e, w)
     | Inr assetJSON \<Rightarrow>
         (case PutState h key assetJSON w of
            (Inl m, w') \<Rightarrow> (Inl (StubError m), w')
          | (Inr u, w') \<Rightarrow> (Inr (), w')))"

definition CreateAsset ::
  "platform \<Rightarrow> string \<Rightarrow> string \<Rightarrow> go_int \<Rightarrow> string \<Rightarrow> go_int \<Rightarrow> worldState \<Rightarrow> (error + unit) \<times> worldState" where
  "CreateAsset h key bl a2 a1 wfl w =
    (case AssetExists h key w of
       Inl e \<Rightarrow> (Inl e, w)
     | Inr exists \<Rightarrow>
         if exists then (Inl (DuplicateKeyError key), w)
         else marshalAndPut h key
           \<lparr>webfilterlist = wfl, blocklist = bl, allowlist = key, attribute1 = a1, attribute2 = a2\<rparr> w)"

definition UpdateAsset ::
  "platform \<Rightarrow> string \<Rightarrow> string \<Rightarrow> go_int \<Rightarrow> string \<Rightarrow> go_int \<Rightarrow> worldState \<Rightarrow> (error + unit) \<times> worldState" where
  "UpdateAsset h key bl a2 a1 wfl w =
    (case AssetExists h key w of
       Inl e \<Rightarrow> (Inl e, w)
     | Inr exists \<Rightarrow>
         if \<not> exists then (Inl (NotFoundError key), w)
         else marshalAndPut h key
           \<lparr>webfilterlist = wfl, blocklist = bl, allowlist = key, attribute1 = a1, attribute2 = a2\<rparr> w)"

definition DeleteAsset :: "platform \<Rightarrow> string \<Rightarrow> worldState \<Rightarrow> (error + unit) \<times> worldState" where
  "DeleteAsset h key w =
    (case AssetExists h key w of
       Inl e \<Rightarrow> (Inl e, w)
     | Inr exists \<Rightarrow>
         if \<not> exists then (Inl (NotFoundError key), w)
         else (case DelState h key w of
                 (Inl m, w') \<Rightarrow> (Inl (StubError m), w')
               | (Inr u, w') \<Rightarrow> (Inr (), w')))"

definition TransferAsset ::
  "platform \<Rightarrow> string \<Rightarrow> string \<Rightarrow> worldState \<Rightarrow> (error + string) \<times> worldState" where
  "TransferAsset h key newattribute1 w =
    (case ReadAsset h key w of
       Inl e \<Rightarrow> (Inl e, w)
     | Inr asset \<Rightarrow>
         (let oldattribute1 = attribute1 asset;
              asset' = asset\<lparr>attribute1 := newattribute1\<rparr>
          in case json_Marshal (encodeValue h) asset' of
               Inl e \<Rightarrow> (Inl e, w)
             | Inr assetJSON \<Rightarrow>
                 (case PutState h key assetJSON w of
                    (Inl m, w') \<Rightarrow> (Inl (StubError m), w')
                  | (Inr u, w') \<Rightarrow> (Inr oldattribute1, w'))))"

text \<open>The six records of \<open>InitLedger\<close>, as the source lists them.\<close>

definition seedAssets :: "Asset list" where
  "seedAssets =
    [\<lparr>webfilterlist = 300, blocklist = [], allowlist = ''www.google.com'', attribute1 = [], attribute2 = 5\<rparr>,
     \<lparr>webfilterlist = 400, blocklist = ''www.xxx.com'', allowlist = [], attribute1 = [], attribute2 = 5\<rparr>,
     \<lparr>webfilterlist = 500, blocklist = [], allowlist = ''www.bbc.co.uk'', attribute1 = [], attribute2 = 10\<rparr>,
     \<lparr>webfilterlist = 600, blocklist = [], allowlist = ''https://scholar.google.com/'', attribute1 = [], attribute2 = 10\<rparr>,
     \<lparr>webfilterlist = 700, blocklist = ''www.instagram.com'', allowlist = [], attribute1 = [], attribute2 = 15\<rparr>,
     \<lparr>webfilterlist = 800, blocklist = [], allowlist = ''www.napier.ac.uk'', attribute1 = [], attribute2 = 15\<rparr>]"

text \<open>The loop of \<open>InitLedger\<close>: marshal each record and put it under its \<open>allowlist\<close>.\<close>

fun putAssets :: "platform \<Rightarrow> Asset list \<Rightarrow> worldState \<Rightarrow> (error + unit) \<times> worldState" where
  "putAssets h [] w = (Inr (), w)"
| "putAssets h (asset # rest) w =
    (case json_Marshal (encodeValue h) asset of
       Inl e \<Rightarrow> (Inl e, w)
     | Inr assetJSON \<Rightarrow>
         (case PutState h (allowlist asset) assetJSON w of
            (Inl m, w') \<Rightarrow> (Inl (StoreWriteError m), w')
          | (Inr u, w') \<Rightarrow> putAssets h rest w'))"

definition InitLedger :: "platform \<Rightarrow> worldState \<Rightarrow> (error + unit) \<times> worldState" where
  "InitLedger h w = putAssets h seedAssets w"

text \<open>
  The loop of \<open>GetAllAssets\<close>: \<open>Next\<close> may fail, each value is unmarshalled into a fresh
  \<open>Asset\<close> and appended.
\<close>

fun collectAssets :: "platform \<Rightarrow> (string \<times> bytes) list \<Rightarrow> Asset list \<Rightarrow> error + Asset list" where
  "collectAssets h [] assets = Inr assets"
| "collectAssets h ((k, val) # rest) assets =
    (case nextErr h k of
       Some m \<Rightarrow> Inl (StubError m)
     | None \<Rightarrow>
         (case json_Unmarshal val of
            Inl e \<Rightarrow> Inl e
          | Inr asset \<Rightarrow> collectAssets h rest (assets @ [asset])))"

definition GetAllAssets :: "platform \<Rightarrow> worldState \<Rightarrow> error + Asset list" where
  "GetAllAssets h w =
    (case GetStateByRange h w of
       Inl m \<Rightarrow> Inl (StubError m)
     | Inr resultsIterator \<Rightarrow> collectAssets h resultsIterator [])"

subsection \<open>Sequences of transactions\<close>

datatype invocation =
    InitLedgerTx
  | CreateAssetTx string string go_int string go_int
  | UpdateAssetTx string string go_int string go_int
  | DeleteAssetTx string
  | TransferAssetTx string string

text \<open>The world state an invocation leaves.\<close>

fun invoke :: "platform \<Rightarrow> invocation \<Rightarrow> worldState \<Rightarrow> worldState" where
  "invoke h InitLedgerTx w = snd (InitLedger h w)"
| "invoke h (CreateAssetTx key bl a2 a1 wfl) w = snd (CreateAsset h key bl a2 a1 wfl w)"
| "invoke h (UpdateAssetTx key bl a2 a1 wfl) w = snd (UpdateAsset h key bl a2 a1 wfl w)"
| "invoke h (DeleteAssetTx key) w = snd (DeleteAsset h key w)"
| "invoke h (TransferAssetTx key new) w = snd (TransferAsset h key new w)"

inductive reachable :: "platform \<Rightarrow> worldState \<Rightarrow> bool" for h :: platform where
  reachable_empty: "reachable h []"
| reachable_invoke: "reachable h w \<Longrightarrow> reachable h (invoke h tx w)"

text \<open>The world state after a list of invocations, the first of the list first.\<close>

fun run :: "platform \<Rightarrow> invocation list \<Rightarrow> worldState \<Rightarrow> worldState" where
  "run h [] w = w"
| "run h (tx # txs) w = run h txs (invoke h tx w)"

text \<open>
  The primary keys an invocation hands to the contract for creation: the \<open>allowlist\<close>
  argument of \<open>CreateAsset\<close>, and the \<open>allowlist\<close> of each record that \<open>InitLedger\<close>
  puts. The other three operations take the \<open>allowlist\<close> of a record that is to exist
  already.
\<close>

fun createdKeys :: "invocation \<Rightarrow> string list" where
  "createdKeys InitLedgerTx = map allowlist seedAssets"
| "createdKeys (CreateAssetTx key bl a2 a1 wfl) = [key]"
| "createdKeys (UpdateAssetTx key bl a2 a1 wfl) = []"
| "createdKeys (DeleteAssetTx key) = []"
| "createdKeys (TransferAssetTx key new) = []"

subsection \<open>Two platforms\<close>

text \<open>
  A rendering of member values for the two platforms below: an int in decimal, a string
  between quotes (what Go writes for a string of letters, digits, dots, colons and
  slashes).
\<close>

fun decimal :: "nat \<Rightarrow> string" where
  "decimal n = (if n < 10 then [char_of (48 + n)] else decimal (n div 10) @ [char_of (48 + n mod 10)])"

declare decimal.simps [simp del]

definition renderValue :: "go_value \<Rightarrow> bytes" where
  "renderValue v =
    (case v of
       GoInt i \<Rightarrow> (if sint i < 0 then ''-'' @ decimal (nat (- sint i)) else decimal (nat (sint i)))
     | GoString s \<Rightarrow> [CHR 0x22] @ s @ [CHR 0x22])"

text \<open>A stub none of whose calls fails: the store of section 6 of the specification.\<close>

definition plainStub :: platform where
  "plainStub =
    \<lparr>encodeValue = renderValue, getStateErr = (\<lambda>_. None), putStateErr = (\<lambda>_ _. None),
     delStateErr = (\<lambda>_. None), rangeErr = None, nextErr = (\<lambda>_. None)\<rparr>"

text \<open>
  The stub of Fabric's shim, whose \<open>PutState\<close> begins
  \<^verbatim>\<open>if key == "" { return errors.New("key must not be an empty string") }\<close>.
\<close>

definition fabricStub :: platform where
  "fabricStub =
    \<lparr>encodeValue = renderValue, getStateErr = (\<lambda>_. None),
     putStateErr = (\<lambda>key _. if key = [] then Some ''key must not be an empty string'' else None),
     delStateErr = (\<lambda>_. None), rangeErr = None, nextErr = (\<lambda>_. None)\<rparr>"

text \<open>A stub whose \<open>GetState\<close> fails, as when the peer cannot reach its state database.\<close>

definition unreadableStub :: platform where
  "unreadableStub =
    \<lparr>encodeValue = renderValue, getStateErr = (\<lambda>_. Some ''state database unavailable''),
     putStateErr = (\<lambda>_ _. None), delStateErr = (\<lambda>_. None), rangeErr = None,
     nextErr = (\<lambda>_. None)\<rparr>"

section \<open>Facts about the model\<close>

subsection \<open>What encoding/json does with an Asset\<close>

text \<open>No field name of \<open>Asset\<close> begins with an upper-case letter.\<close>

lemma typeFields_Asset: "typeFields Asset_fields = []"
  by (simp add: typeFields_def Asset_fields_def isExported_def)

lemma json_Marshal_Asset: "json_Marshal enc a = Inr ''{}''"
  by (simp add: json_Marshal_def encodeStruct_def typeFields_Asset)

lemma checkValid_braces: "checkValid ''{}''"
  by (simp add: checkValid_def scanner_reset_def scanByte_def stateBeginValue_step_def
      isSpace_def goto_def pushParseState_def maxNestingDepth_def stateEndValue_step_def
      popParseState_def Let_def)

lemma json_Unmarshal_braces: "json_Unmarshal ''{}'' = Inr Asset_zero"
  by (simp add: json_Unmarshal_def checkValid_braces isSpace_def)

text \<open>Whatever bytes are decoded, a record that comes out is the zero record.\<close>

lemma decodeValue_zero: "decodeValue d = Inr a \<Longrightarrow> a = Asset_zero"
  by (induction d) (auto split: if_splits)

lemma json_Unmarshal_zero: "json_Unmarshal d = Inr a \<Longrightarrow> a = Asset_zero"
  by (auto simp: json_Unmarshal_def dest: decodeValue_zero split: if_splits)

lemma ReadAsset_zero: "ReadAsset h key w = Inr a \<Longrightarrow> a = Asset_zero"
  by (auto simp: ReadAsset_def dest: json_Unmarshal_zero split: sum.splits option.splits)

lemma collectAssets_zero:
  "collectAssets h entries acc = Inr assets \<Longrightarrow> set assets \<subseteq> set acc \<union> {Asset_zero}"
proof (induction entries arbitrary: acc)
  case Nil
  then show ?case by auto
next
  case (Cons entry rest)
  obtain k val where entry: "entry = (k, val)" by (cases entry)
  from Cons.prems entry obtain asset where
    u: "json_Unmarshal val = Inr asset" and r: "collectAssets h rest (acc @ [asset]) = Inr assets"
    by (auto split: option.splits sum.splits)
  from u have "asset = Asset_zero" by (rule json_Unmarshal_zero)
  with Cons.IH [OF r] show ?case by auto
qed

lemma GetAllAssets_zero: "GetAllAssets h w = Inr assets \<Longrightarrow> set assets \<subseteq> {Asset_zero}"
  using collectAssets_zero [of h w "[]" assets]
  by (auto simp: GetAllAssets_def GetStateByRange_def split: option.splits sum.splits)

subsection \<open>What the operations write\<close>

lemma marshalAndPut_cases:
  "marshalAndPut h key asset w =
    (case putStateErr h key ''{}'' of
       Some m \<Rightarrow> (Inl (StubError m), w)
     | None \<Rightarrow> (Inr (), AList.update key ''{}'' w))"
  by (simp add: marshalAndPut_def json_Marshal_Asset PutState_def split: option.splits)

lemma marshalAndPut_snd: "snd (marshalAndPut h key asset w) = snd (PutState h key ''{}'' w)"
  by (simp add: marshalAndPut_cases PutState_def split: option.splits)

lemma CreateAsset_snd:
  "snd (CreateAsset h key bl a2 a1 wfl w) = w
   \<or> snd (CreateAsset h key bl a2 a1 wfl w) = snd (PutState h key ''{}'' w)"
  by (simp add: CreateAsset_def marshalAndPut_snd split: sum.splits)

lemma UpdateAsset_snd:
  "snd (UpdateAsset h key bl a2 a1 wfl w) = w
   \<or> snd (UpdateAsset h key bl a2 a1 wfl w) = snd (PutState h key ''{}'' w)"
  by (simp add: UpdateAsset_def marshalAndPut_snd split: sum.splits)

lemma DeleteAsset_snd:
  "snd (DeleteAsset h key w) = w \<or> snd (DeleteAsset h key w) = snd (DelState h key w)"
  by (simp add: DeleteAsset_def split: sum.splits prod.splits)

lemma TransferAsset_snd:
  "snd (TransferAsset h key new w) = w
   \<or> snd (TransferAsset h key new w) = snd (PutState h key ''{}'' w)"
  by (simp add: TransferAsset_def json_Marshal_Asset Let_def split: sum.splits prod.splits)

subsection \<open>Keys of the world state\<close>

lemma PutState_distinct:
  "distinct (map fst w) \<Longrightarrow> distinct (map fst (snd (PutState h k v w)))"
  by (simp add: PutState_def distinct_update split: option.splits)

lemma DelState_distinct:
  "distinct (map fst w) \<Longrightarrow> distinct (map fst (snd (DelState h k w)))"
  by (simp add: DelState_def distinct_delete split: option.splits)

lemma putAssets_distinct:
  "distinct (map fst w) \<Longrightarrow> distinct (map fst (snd (putAssets h assets w)))"
proof (induction assets arbitrary: w)
  case Nil
  then show ?case by simp
next
  case (Cons asset rest)
  have step: "distinct (map fst (snd (PutState h (allowlist asset) ''{}'' w)))"
    using Cons.prems by (rule PutState_distinct)
  show ?case
  proof (cases "PutState h (allowlist asset) ''{}'' w")
    case (Pair r w1)
    with step have w1: "distinct (map fst w1)" by simp
    from Cons.IH [OF w1] Pair w1 show ?thesis
      by (cases r) (simp_all add: json_Marshal_Asset)
  qed
qed

lemma invoke_distinct:
  assumes "distinct (map fst w)"
  shows "distinct (map fst (invoke h tx w))"
proof (cases tx)
  case InitLedgerTx
  with assms show ?thesis by (simp add: InitLedger_def putAssets_distinct)
next
  case (CreateAssetTx key bl a2 a1 wfl)
  with assms CreateAsset_snd [of h key bl a2 a1 wfl w] PutState_distinct [OF assms, of h key "''{}''"]
  show ?thesis by auto
next
  case (UpdateAssetTx key bl a2 a1 wfl)
  with assms UpdateAsset_snd [of h key bl a2 a1 wfl w] PutState_distinct [OF assms, of h key "''{}''"]
  show ?thesis by auto
next
  case (DeleteAssetTx key)
  with assms DeleteAsset_snd [of h key w] DelState_distinct [OF assms, of h key]
  show ?thesis by auto
next
  case (TransferAssetTx key new)
  with assms TransferAsset_snd [of h key new w] PutState_distinct [OF assms, of h key "''{}''"]
  show ?thesis by auto
qed

lemma run_distinct: "distinct (map fst w) \<Longrightarrow> distinct (map fst (run h txs w))"
  by (induction txs arbitrary: w) (auto intro: invoke_distinct)

subsection \<open>Where the keys of the world state come from\<close>

text \<open>The reachable world states are those that some list of invocations leaves.\<close>

lemma reachable_run: "reachable h w \<Longrightarrow> reachable h (run h txs w)"
  by (induction txs arbitrary: w) (auto intro: reachable_invoke)

lemma reachable_is_run: "reachable h w \<Longrightarrow> \<exists>txs. w = run h txs []"
proof (induction rule: reachable.induct)
  case reachable_empty
  have "[] = run h [] []" by simp
  then show ?case by blast
next
  case (reachable_invoke w tx)
  then obtain txs where w: "w = run h txs []" by blast
  have app: "\<And>w0. run h (txs @ [tx]) w0 = invoke h tx (run h txs w0)"
    by (induction txs) auto
  from w have "invoke h tx w = run h (txs @ [tx]) []" by (simp add: app)
  then show ?case by blast
qed

lemma present_key: "map_of w k = Some v \<Longrightarrow> k \<in> fst ` set w"
  by (metis domI dom_map_of_conv_image_fst)

lemma PutState_keys: "fst ` set (snd (PutState h k v w)) \<subseteq> insert k (fst ` set w)"
  by (auto simp: PutState_def dom_update split: option.splits)

lemma PutState_present_keys:
  "map_of w k = Some v' \<Longrightarrow> fst ` set (snd (PutState h k v w)) \<subseteq> fst ` set w"
  using PutState_keys [of h k v w] present_key [of w k v'] by auto

text \<open>\<open>CreateAsset\<close> adds at most the key it is given.\<close>

lemma CreateAsset_keys:
  "fst ` set (snd (CreateAsset h key bl a2 a1 wfl w)) \<subseteq> insert key (fst ` set w)"
proof -
  consider "snd (CreateAsset h key bl a2 a1 wfl w) = w"
    | "snd (CreateAsset h key bl a2 a1 wfl w) = snd (PutState h key ''{}'' w)"
    using CreateAsset_snd [of h key bl a2 a1 wfl w] by blast
  then show ?thesis
  proof cases
    case 1
    then show ?thesis by auto
  next
    case 2
    with PutState_keys [of h key "''{}''" w] show ?thesis by simp
  qed
qed

text \<open>
  \<open>UpdateAsset\<close> and \<open>TransferAsset\<close> add no key: they write only after they have found
  the key in the world state.
\<close>

lemma UpdateAsset_keys:
  "fst ` set (snd (UpdateAsset h key bl a2 a1 wfl w)) \<subseteq> fst ` set w"
proof (cases "map_of w key")
  case None
  then show ?thesis
    by (simp add: UpdateAsset_def AssetExists_def GetState_def split: option.splits)
next
  case (Some v')
  consider "snd (UpdateAsset h key bl a2 a1 wfl w) = w"
    | "snd (UpdateAsset h key bl a2 a1 wfl w) = snd (PutState h key ''{}'' w)"
    using UpdateAsset_snd [of h key bl a2 a1 wfl w] by blast
  then show ?thesis
  proof cases
    case 1
    then show ?thesis by simp
  next
    case 2
    with PutState_present_keys [OF Some, of h "''{}''"] show ?thesis by simp
  qed
qed

lemma TransferAsset_keys:
  "fst ` set (snd (TransferAsset h key new w)) \<subseteq> fst ` set w"
proof (cases "map_of w key")
  case None
  then show ?thesis
    by (simp add: TransferAsset_def ReadAsset_def GetState_def split: option.splits)
next
  case (Some v')
  consider "snd (TransferAsset h key new w) = w"
    | "snd (TransferAsset h key new w) = snd (PutState h key ''{}'' w)"
    using TransferAsset_snd [of h key new w] by blast
  then show ?thesis
  proof cases
    case 1
    then show ?thesis by simp
  next
    case 2
    with PutState_present_keys [OF Some, of h "''{}''"] show ?thesis by simp
  qed
qed

lemma DeleteAsset_keys: "fst ` set (snd (DeleteAsset h key w)) \<subseteq> fst ` set w"
proof -
  have del: "fst ` set (snd (DelState h key w)) \<subseteq> fst ` set w"
    using dom_delete_subset [of key w] by (simp add: DelState_def split: option.splits)
  consider "snd (DeleteAsset h key w) = w" | "snd (DeleteAsset h key w) = snd (DelState h key w)"
    using DeleteAsset_snd [of h key w] by blast
  then show ?thesis
  proof cases
    case 1
    then show ?thesis by simp
  next
    case 2
    with del show ?thesis by simp
  qed
qed

text \<open>The loop of \<open>InitLedger\<close> adds at most the \<open>allowlist\<close> of each of its records.\<close>

lemma putAssets_keys:
  "fst ` set (snd (putAssets h assets w)) \<subseteq> fst ` set w \<union> allowlist ` set assets"
proof (induction assets arbitrary: w)
  case Nil
  show ?case by simp
next
  case (Cons asset rest)
  show ?case
  proof (cases "PutState h (allowlist asset) ''{}'' w")
    case (Pair r w1)
    with PutState_keys [of h "allowlist asset" "''{}''" w]
    have w1: "fst ` set w1 \<subseteq> insert (allowlist asset) (fst ` set w)" by simp
    show ?thesis
    proof (cases r)
      case (Inl m)
      with Pair w1 show ?thesis by (auto simp: json_Marshal_Asset)
    next
      case (Inr u)
      with Pair have "snd (putAssets h (asset # rest) w) = snd (putAssets h rest w1)"
        by (simp add: json_Marshal_Asset)
      with Cons.IH [of w1] w1 show ?thesis by auto
    qed
  qed
qed

lemma invoke_keys: "fst ` set (invoke h tx w) \<subseteq> fst ` set w \<union> set (createdKeys tx)"
proof (cases tx)
  case InitLedgerTx
  with putAssets_keys [of h seedAssets w] show ?thesis by (simp add: InitLedger_def)
next
  case (CreateAssetTx key bl a2 a1 wfl)
  with CreateAsset_keys [of h key bl a2 a1 wfl w] show ?thesis by auto
next
  case (UpdateAssetTx key bl a2 a1 wfl)
  with UpdateAsset_keys [of h key bl a2 a1 wfl w] show ?thesis by auto
next
  case (DeleteAssetTx key)
  with DeleteAsset_keys [of h key w] show ?thesis by auto
next
  case (TransferAssetTx key new)
  with TransferAsset_keys [of h key new w] show ?thesis by auto
qed

lemma run_keys:
  "fst ` set (run h txs w) \<subseteq> fst ` set w \<union> set (concat (map createdKeys txs))"
proof (induction txs arbitrary: w)
  case Nil
  show ?case by simp
next
  case (Cons tx txs)
  from Cons.IH [of "invoke h tx w"] invoke_keys [of h tx w] show ?case by auto
qed

subsection \<open>The example of the specification, run\<close>

lemma Create_test_plain:
  "CreateAsset plainStub ''www.test.com'' [] 5 [] 300 [] = (Inr (), [(''www.test.com'', ''{}'')])"
  by (simp add: CreateAsset_def AssetExists_def GetState_def marshalAndPut_cases plainStub_def)

lemma Create_test_fabric:
  "CreateAsset fabricStub ''www.test.com'' [] 5 [] 300 [] = (Inr (), [(''www.test.com'', ''{}'')])"
  by (simp add: CreateAsset_def AssetExists_def GetState_def marshalAndPut_cases fabricStub_def)

lemma Read_test_plain:
  "ReadAsset plainStub ''www.test.com'' [(''www.test.com'', ''{}'')] = Inr Asset_zero"
  by (simp add: ReadAsset_def GetState_def json_Unmarshal_braces plainStub_def)

lemma Read_test_fabric:
  "ReadAsset fabricStub ''www.test.com'' [(''www.test.com'', ''{}'')] = Inr Asset_zero"
  by (simp add: ReadAsset_def GetState_def json_Unmarshal_braces fabricStub_def)

lemma Transfer_test_plain:
  "TransferAsset plainStub ''www.test.com'' ''flag'' [(''www.test.com'', ''{}'')]
     = (Inr [], [(''www.test.com'', ''{}'')])"
  unfolding TransferAsset_def Read_test_plain
  by (simp add: json_Marshal_Asset PutState_def Asset_zero_def plainStub_def)

lemma Transfer_test_fabric:
  "TransferAsset fabricStub ''www.test.com'' ''flag'' [(''www.test.com'', ''{}'')]
     = (Inr [], [(''www.test.com'', ''{}'')])"
  unfolding TransferAsset_def Read_test_fabric
  by (simp add: json_Marshal_Asset PutState_def Asset_zero_def fabricStub_def)

subsection \<open>InitLedger, run on the empty world state\<close>

lemma InitLedger_plain:
  "InitLedger plainStub [] =
    (Inr (), [(''www.google.com'', ''{}''), ([], ''{}''), (''www.bbc.co.uk'', ''{}''),
              (''https://scholar.google.com/'', ''{}''), (''www.napier.ac.uk'', ''{}'')])"
  by (simp add: InitLedger_def seedAssets_def json_Marshal_Asset PutState_def plainStub_def)

lemma InitLedger_fabric:
  "InitLedger fabricStub [] =
    (Inl (StoreWriteError ''key must not be an empty string''), [(''www.google.com'', ''{}'')])"
  by (simp add: InitLedger_def seedAssets_def json_Marshal_Asset PutState_def fabricStub_def)

lemma GetAllAssets_plain:
  "GetAllAssets plainStub
     [(''www.google.com'', ''{}''), ([], ''{}''), (''www.bbc.co.uk'', ''{}''),
      (''https://scholar.google.com/'', ''{}''), (''www.napier.ac.uk'', ''{}'')]
   = Inr [Asset_zero, Asset_zero, Asset_zero, Asset_zero, Asset_zero]"
  by (simp add: GetAllAssets_def GetStateByRange_def json_Unmarshal_braces plainStub_def)

lemma first_seed:
  "\<lparr>webfilterlist = 300, blocklist = [], allowlist = ''www.google.com'', attribute1 = [],
     attribute2 = 5\<rparr> \<in> set seedAssets"
  by (simp add: seedAssets_def)

section \<open>The claims\<close>

text \<open>
  C1. Claimed: decoding the encoding of a record gives the record back. The code does not
  do that: for the record of the specification's example, \<open>json.Marshal\<close> gives the bytes
  \<open>{}\<close>, \<open>json.Unmarshal\<close> of these bytes gives the zero record, and the zero record is
  not the record that was encoded.
\<close>

theorem roundtrip_loses_fields:
  "json_Marshal enc \<lparr>webfilterlist = 300, blocklist = [], allowlist = ''www.test.com'',
      attribute1 = [], attribute2 = 5\<rparr> = Inr ''{}''
   \<and> json_Unmarshal ''{}'' = Inr Asset_zero
   \<and> Asset_zero \<noteq> \<lparr>webfilterlist = 300, blocklist = [], allowlist = ''www.test.com'',
      attribute1 = [], attribute2 = 5\<rparr>"
  by (simp add: json_Marshal_Asset json_Unmarshal_braces Asset_zero_def)

text \<open>
  C2. Claimed: \<open>TransferAsset\<close> returns the old \<open>attribute1\<close> and stores the new one, so
  that a following \<open>ReadAsset\<close> shows it. On the specification's example, with either
  stub: \<open>CreateAsset\<close> succeeds, \<open>TransferAsset\<close> to \<open>flag\<close> succeeds and returns the empty
  string, the world state still holds \<open>{}\<close> under the key, and \<open>ReadAsset\<close> returns the
  zero record, whose \<open>attribute1\<close> is not \<open>flag\<close>.
\<close>

theorem Transfer_new_value_is_lost:
  "CreateAsset plainStub ''www.test.com'' [] 5 [] 300 [] = (Inr (), [(''www.test.com'', ''{}'')])
   \<and> TransferAsset plainStub ''www.test.com'' ''flag'' [(''www.test.com'', ''{}'')]
       = (Inr [], [(''www.test.com'', ''{}'')])
   \<and> ReadAsset plainStub ''www.test.com'' [(''www.test.com'', ''{}'')] = Inr Asset_zero
   \<and> CreateAsset fabricStub ''www.test.com'' [] 5 [] 300 [] = (Inr (), [(''www.test.com'', ''{}'')])
   \<and> TransferAsset fabricStub ''www.test.com'' ''flag'' [(''www.test.com'', ''{}'')]
       = (Inr [], [(''www.test.com'', ''{}'')])
   \<and> ReadAsset fabricStub ''www.test.com'' [(''www.test.com'', ''{}'')] = Inr Asset_zero
   \<and> attribute1 Asset_zero \<noteq> ''flag''"
  by (simp add: Create_test_plain Transfer_test_plain Read_test_plain
      Create_test_fabric Transfer_test_fabric Read_test_fabric Asset_zero_def)

text \<open>
  C3. Claimed: \<open>CreateAsset\<close> followed by \<open>ReadAsset\<close> returns the record that was created.
  On the specification's example, with either stub, \<open>ReadAsset\<close> after the successful
  \<open>CreateAsset\<close> returns the record with empty strings and zeros, not the record with
  \<open>allowlist = www.test.com\<close>, \<open>attribute2 = 5\<close> and \<open>webfilterlist = 300\<close>.
\<close>

theorem Create_then_Read_gives_zero_record:
  "CreateAsset plainStub ''www.test.com'' [] 5 [] 300 [] = (Inr (), [(''www.test.com'', ''{}'')])
   \<and> ReadAsset plainStub ''www.test.com'' [(''www.test.com'', ''{}'')]
       = Inr \<lparr>webfilterlist = 0, blocklist = [], allowlist = [], attribute1 = [], attribute2 = 0\<rparr>
   \<and> CreateAsset fabricStub ''www.test.com'' [] 5 [] 300 [] = (Inr (), [(''www.test.com'', ''{}'')])
   \<and> ReadAsset fabricStub ''www.test.com'' [(''www.test.com'', ''{}'')]
       = Inr \<lparr>webfilterlist = 0, blocklist = [], allowlist = [], attribute1 = [], attribute2 = 0\<rparr>
   \<and> \<lparr>webfilterlist = 0, blocklist = [], allowlist = [], attribute1 = [], attribute2 = 0\<rparr>
       \<noteq> \<lparr>webfilterlist = 300, blocklist = [], allowlist = ''www.test.com'', attribute1 = [],
            attribute2 = 5\<rparr>"
  by (simp add: Create_test_plain Read_test_plain Create_test_fabric Read_test_fabric Asset_zero_def)

text \<open>
  C4. Claimed: after \<open>InitLedger\<close> on the empty world state, \<open>GetAllAssets\<close> returns the
  six seeded records. With the stub that accepts every key, \<open>InitLedger\<close> succeeds and
  leaves five keys (two seeds share the empty key), each with the value \<open>{}\<close>, and
  \<open>GetAllAssets\<close> returns five zero records. With the stub of Fabric, \<open>InitLedger\<close> fails at
  its second record, whose key is empty. On no platform does \<open>GetAllAssets\<close> after
  \<open>InitLedger\<close> return the seeded records.
\<close>

theorem InitLedger_GetAll_not_the_seeds:
  "InitLedger plainStub [] =
    (Inr (), [(''www.google.com'', ''{}''), ([], ''{}''), (''www.bbc.co.uk'', ''{}''),
              (''https://scholar.google.com/'', ''{}''), (''www.napier.ac.uk'', ''{}'')])
   \<and> GetAllAssets plainStub
        [(''www.google.com'', ''{}''), ([], ''{}''), (''www.bbc.co.uk'', ''{}''),
         (''https://scholar.google.com/'', ''{}''), (''www.napier.ac.uk'', ''{}'')]
       = Inr [Asset_zero, Asset_zero, Asset_zero, Asset_zero, Asset_zero]
   \<and> set [Asset_zero, Asset_zero, Asset_zero, Asset_zero, Asset_zero] \<noteq> set seedAssets
   \<and> InitLedger fabricStub [] =
       (Inl (StoreWriteError ''key must not be an empty string''), [(''www.google.com'', ''{}'')])
   \<and> \<not> (\<exists>assets. GetAllAssets h (snd (InitLedger h [])) = Inr assets
          \<and> set assets = set seedAssets)"
proof -
  have ne: "set [Asset_zero, Asset_zero, Asset_zero, Asset_zero, Asset_zero] \<noteq> set seedAssets"
    using first_seed by (auto simp: Asset_zero_def)
  have never: "\<not> (\<exists>assets. GetAllAssets h (snd (InitLedger h [])) = Inr assets
      \<and> set assets = set seedAssets)"
  proof
    assume "\<exists>assets. GetAllAssets h (snd (InitLedger h [])) = Inr assets
      \<and> set assets = set seedAssets"
    then obtain assets where g: "GetAllAssets h (snd (InitLedger h [])) = Inr assets"
      and s: "set assets = set seedAssets" by blast
    from GetAllAssets_zero [OF g] s first_seed show False
      by (auto simp: Asset_zero_def)
  qed
  show ?thesis
    using ne never by (simp add: InitLedger_plain InitLedger_fabric GetAllAssets_plain)
qed

text \<open>
  C5. For a key that is absent from the world state, when \<open>GetState\<close> does not fail:
  \<open>AssetExists\<close> returns false, and \<open>ReadAsset\<close>, \<open>UpdateAsset\<close> and \<open>DeleteAsset\<close>
  return the error "the asset ... does not exist"; the two that could write leave the world
  state as it was.
\<close>

theorem absent_key_not_found:
  assumes "map_of w k = None" and "getStateErr h k = None"
  shows "AssetExists h k w = Inr False
    \<and> ReadAsset h k w = Inl (NotFoundError k)
    \<and> UpdateAsset h k bl a2 a1 wfl w = (Inl (NotFoundError k), w)
    \<and> DeleteAsset h k w = (Inl (NotFoundError k), w)"
  using assms
  by (simp add: AssetExists_def ReadAsset_def UpdateAsset_def DeleteAsset_def GetState_def)

theorem absent_key_not_found_witness:
  "map_of [(''www.google.com'', ''{}'')] ''www.test.com'' = None
   \<and> getStateErr plainStub ''www.test.com'' = None
   \<and> AssetExists plainStub ''www.test.com'' [(''www.google.com'', ''{}'')] = Inr False
   \<and> ReadAsset plainStub ''www.test.com'' [(''www.google.com'', ''{}'')]
       = Inl (NotFoundError ''www.test.com'')
   \<and> UpdateAsset plainStub ''www.test.com'' [] 5 ''flag'' 300 [(''www.google.com'', ''{}'')]
       = (Inl (NotFoundError ''www.test.com''), [(''www.google.com'', ''{}'')])
   \<and> DeleteAsset plainStub ''www.test.com'' [(''www.google.com'', ''{}'')]
       = (Inl (NotFoundError ''www.test.com''), [(''www.google.com'', ''{}'')])"
proof -
  have a: "map_of [(''www.google.com'', ''{}'')] ''www.test.com'' = None" by simp
  have b: "getStateErr plainStub ''www.test.com'' = None" by (simp add: plainStub_def)
  show ?thesis
    using a b absent_key_not_found [OF a b, of "[]" 5 "''flag''" 300] by simp
qed

text \<open>
  C6. For a key that is present in the world state, when \<open>GetState\<close> does not fail,
  \<open>CreateAsset\<close> returns the error "the asset ... already exists" and leaves the world
  state as it was; and whenever \<open>CreateAsset\<close> succeeds, \<open>AssetExists\<close> on the state before
  the call returns false.
\<close>

theorem Create_existing_key_fails:
  "(map_of w k = Some v \<and> getStateErr h k = None
      \<longrightarrow> CreateAsset h k bl a2 a1 wfl w = (Inl (DuplicateKeyError k), w))
   \<and> (fst (CreateAsset h k bl a2 a1 wfl w) = Inr () \<longrightarrow> AssetExists h k w = Inr False)"
  by (auto simp: CreateAsset_def AssetExists_def GetState_def
      split: option.splits sum.splits if_splits)

theorem Create_existing_key_fails_witness:
  "map_of [(''www.test.com'', ''{}'')] ''www.test.com'' = Some ''{}''
   \<and> getStateErr plainStub ''www.test.com'' = None
   \<and> CreateAsset plainStub ''www.test.com'' [] 5 [] 300 [(''www.test.com'', ''{}'')]
       = (Inl (DuplicateKeyError ''www.test.com''), [(''www.test.com'', ''{}'')])
   \<and> fst (CreateAsset plainStub ''www.test.com'' [] 5 [] 300 []) = Inr ()
   \<and> AssetExists plainStub ''www.test.com'' [] = Inr False"
proof -
  have a: "map_of [(''www.test.com'', ''{}'')] ''www.test.com'' = Some ''{}''" by simp
  have b: "getStateErr plainStub ''www.test.com'' = None" by (simp add: plainStub_def)
  have c: "fst (CreateAsset plainStub ''www.test.com'' [] 5 [] 300 []) = Inr ()"
    by (simp add: Create_test_plain)
  show ?thesis
    using a b c
      Create_existing_key_fails [of "[(''www.test.com'', ''{}'')]" "''www.test.com''" "''{}''"
        plainStub "[]" 5 "[]" 300]
      Create_existing_key_fails [of "[]" "''www.test.com''" "''{}''" plainStub "[]" 5 "[]" 300]
    by simp
qed

text \<open>
  C7. After a successful \<open>DeleteAsset\<close> of a key (which was therefore present), the key is
  absent: when \<open>GetState\<close> does not fail, \<open>ReadAsset\<close> of the key and a second
  \<open>DeleteAsset\<close> of it both return the error "the asset ... does not exist".
\<close>

theorem Delete_then_absent:
  assumes "DeleteAsset h k w = (Inr (), w')" and "getStateErr h' k = None"
  shows "map_of w k \<noteq> None
    \<and> map_of w' k = None
    \<and> ReadAsset h' k w' = Inl (NotFoundError k)
    \<and> DeleteAsset h' k w' = (Inl (NotFoundError k), w')"
proof -
  from assms(1) have present: "map_of w k \<noteq> None" and w': "w' = AList.delete k w"
    by (auto simp: DeleteAsset_def AssetExists_def GetState_def DelState_def
        split: option.splits sum.splits if_splits)
  have gone: "map_of w' k = None"
    by (simp add: w' delete_conv')
  show ?thesis
    using present gone assms(2)
    by (simp add: ReadAsset_def DeleteAsset_def AssetExists_def GetState_def)
qed

theorem Delete_then_absent_witness:
  "DeleteAsset plainStub ''www.test.com'' [(''www.test.com'', ''{}''), (''www.google.com'', ''{}'')]
     = (Inr (), [(''www.google.com'', ''{}'')])
   \<and> getStateErr plainStub ''www.test.com'' = None
   \<and> map_of [(''www.test.com'', ''{}''), (''www.google.com'', ''{}'')] ''www.test.com'' \<noteq> None
   \<and> map_of [(''www.google.com'', ''{}'')] ''www.test.com'' = None
   \<and> ReadAsset plainStub ''www.test.com'' [(''www.google.com'', ''{}'')]
       = Inl (NotFoundError ''www.test.com'')
   \<and> DeleteAsset plainStub ''www.test.com'' [(''www.google.com'', ''{}'')]
       = (Inl (NotFoundError ''www.test.com''), [(''www.google.com'', ''{}'')])"
proof -
  have a: "DeleteAsset plainStub ''www.test.com''
      [(''www.test.com'', ''{}''), (''www.google.com'', ''{}'')]
     = (Inr (), [(''www.google.com'', ''{}'')])"
    by (simp add: DeleteAsset_def AssetExists_def GetState_def DelState_def plainStub_def)
  have b: "getStateErr plainStub ''www.test.com'' = None" by (simp add: plainStub_def)
  show ?thesis
    using a b Delete_then_absent [OF a b] by simp
qed

text \<open>
  C8. Claimed: the encoded form of a record contains its five fields, in the order
  allowlist, blocklist, attribute2, attribute1, webfilterlist. The encoder emits no member
  at all: the encoded form of every record is \<open>{}\<close>. (The order in which the struct
  declares its fields, which the encoder would follow, is webfilterlist, blocklist,
  allowlist, attribute1, attribute2.)
\<close>

theorem Marshal_emits_no_member:
  "map ftag (typeFields Asset_fields) = []
   \<and> json_Marshal enc a = Inr ''{}''
   \<and> map ftag Asset_fields
       = [''webfilterlist'', ''blocklist'', ''allowlist'', ''attribute1'', ''attribute2'']"
  by (simp add: typeFields_Asset json_Marshal_Asset) (simp add: Asset_fields_def)

text \<open>
  C9. Claimed: in every reachable world state the keys are non-empty and unique. The
  contract never checks a key: with the stub that accepts every key, \<open>CreateAsset\<close> with
  the empty string as key succeeds on the empty world state and stores a value under the
  empty key, and so does \<open>InitLedger\<close>.
\<close>

theorem empty_key_is_stored:
  "CreateAsset plainStub [] ''www.xxx.com'' 5 [] 400 [] = (Inr (), [([], ''{}'')])
   \<and> reachable plainStub [([], ''{}'')]
   \<and> map_of [([], ''{}'')] [] = Some ''{}''
   \<and> map_of (snd (InitLedger plainStub [])) [] = Some ''{}''"
proof -
  have c: "CreateAsset plainStub [] ''www.xxx.com'' 5 [] 400 [] = (Inr (), [([], ''{}'')])"
    by (simp add: CreateAsset_def AssetExists_def GetState_def marshalAndPut_cases plainStub_def)
  then have "invoke plainStub (CreateAssetTx [] ''www.xxx.com'' 5 [] 400) [] = [([], ''{}'')]"
    by simp
  with reachable_invoke [OF reachable_empty, of plainStub "CreateAssetTx [] ''www.xxx.com'' 5 [] 400"]
  have r: "reachable plainStub [([], ''{}'')]" by simp
  have i: "map_of (snd (InitLedger plainStub [])) [] = Some ''{}''"
    by (simp add: InitLedger_plain)
  show ?thesis using c r i by simp
qed

text \<open>
  C9, amended. Take any list of invocations of \<open>InitLedger\<close>, \<open>CreateAsset\<close>,
  \<open>UpdateAsset\<close>, \<open>DeleteAsset\<close> and \<open>TransferAsset\<close>, run from the empty world state
  (each may succeed or fail). Every key of the resulting world state is a primary key that
  was handed to the contract for creation: the \<open>allowlist\<close> argument of a \<open>CreateAsset\<close>
  of the list or, when \<open>InitLedger\<close> is in the list, the \<open>allowlist\<close> of one of its
  records; the other three operations add no key. Every key occurs once. The contract
  does not check these primary keys; when none of them is empty, no key of the world state
  is empty. (Nothing is said about the \<open>allowlist\<close> field of a record read back from the
  world state.)
\<close>

theorem stored_keys_were_created:
  "set (map fst (run h txs [])) \<subseteq> set (concat (map createdKeys txs))
   \<and> distinct (map fst (run h txs []))
   \<and> ([] \<notin> set (concat (map createdKeys txs)) \<longrightarrow> [] \<notin> set (map fst (run h txs [])))"
proof -
  have sub: "set (map fst (run h txs [])) \<subseteq> set (concat (map createdKeys txs))"
    using run_keys [of h txs "[]"] by simp
  have dist: "distinct (map fst (run h txs []))"
    by (rule run_distinct) simp
  from sub dist show ?thesis by blast
qed

theorem stored_keys_were_created_witness:
  "run fabricStub
     [CreateAssetTx ''www.test.com'' [] 5 [] 300,
      UpdateAssetTx ''www.bbc.co.uk'' [] 10 [] 500,
      CreateAssetTx ''www.napier.ac.uk'' [] 15 [] 800,
      TransferAssetTx ''www.xxx.com'' ''flag'',
      CreateAssetTx ''www.google.com'' [] 5 [] 300,
      UpdateAssetTx ''www.test.com'' ''www.xxx.com'' 5 ''flag'' 400,
      DeleteAssetTx ''www.napier.ac.uk''] []
     = [(''www.test.com'', ''{}''), (''www.google.com'', ''{}'')]
   \<and> concat (map createdKeys
       [CreateAssetTx ''www.test.com'' [] 5 [] 300,
        UpdateAssetTx ''www.bbc.co.uk'' [] 10 [] 500,
        CreateAssetTx ''www.napier.ac.uk'' [] 15 [] 800,
        TransferAssetTx ''www.xxx.com'' ''flag'',
        CreateAssetTx ''www.google.com'' [] 5 [] 300,
        UpdateAssetTx ''www.test.com'' ''www.xxx.com'' 5 ''flag'' 400,
        DeleteAssetTx ''www.napier.ac.uk''])
     = [''www.test.com'', ''www.napier.ac.uk'', ''www.google.com'']
   \<and> set (map fst [(''www.test.com'', ''{}''), (''www.google.com'', ''{}'')])
       \<subseteq> set [''www.test.com'', ''www.napier.ac.uk'', ''www.google.com'']
   \<and> distinct (map fst [(''www.test.com'', ''{}''), (''www.google.com'', ''{}'')])
   \<and> [] \<notin> set [''www.test.com'', ''www.napier.ac.uk'', ''www.google.com'']
   \<and> [] \<notin> set (map fst [(''www.test.com'', ''{}''), (''www.google.com'', ''{}'')])
   \<and> run plainStub
       [InitLedgerTx, CreateAssetTx ''www.test.com'' [] 5 [] 300, DeleteAssetTx ''www.bbc.co.uk''] []
     = [(''www.google.com'', ''{}''), ([], ''{}''), (''https://scholar.google.com/'', ''{}''),
        (''www.napier.ac.uk'', ''{}''), (''www.test.com'', ''{}'')]
   \<and> set (map fst [(''www.google.com'', ''{}''), ([], ''{}''),
          (''https://scholar.google.com/'', ''{}''), (''www.napier.ac.uk'', ''{}''),
          (''www.test.com'', ''{}'')])
       \<subseteq> set (map allowlist seedAssets @ [''www.test.com''])
   \<and> distinct (map fst [(''www.google.com'', ''{}''), ([], ''{}''),
          (''https://scholar.google.com/'', ''{}''), (''www.napier.ac.uk'', ''{}''),
          (''www.test.com'', ''{}'')])"
proof -
  have r1: "run fabricStub
     [CreateAssetTx ''www.test.com'' [] 5 [] 300,
      UpdateAssetTx ''www.bbc.co.uk'' [] 10 [] 500,
      CreateAssetTx ''www.napier.ac.uk'' [] 15 [] 800,
      TransferAssetTx ''www.xxx.com'' ''flag'',
      CreateAssetTx ''www.google.com'' [] 5 [] 300,
      UpdateAssetTx ''www.test.com'' ''www.xxx.com'' 5 ''flag'' 400,
      DeleteAssetTx ''www.napier.ac.uk''] []
     = [(''www.test.com'', ''{}''), (''www.google.com'', ''{}'')]"
    by (simp add: CreateAsset_def UpdateAsset_def DeleteAsset_def TransferAsset_def
        ReadAsset_def AssetExists_def GetState_def DelState_def marshalAndPut_cases
        fabricStub_def)
  have r2: "run plainStub
       [InitLedgerTx, CreateAssetTx ''www.test.com'' [] 5 [] 300, DeleteAssetTx ''www.bbc.co.uk''] []
     = [(''www.google.com'', ''{}''), ([], ''{}''), (''https://scholar.google.com/'', ''{}''),
        (''www.napier.ac.uk'', ''{}''), (''www.test.com'', ''{}'')]"
    by (simp add: InitLedger_plain)
      (simp add: CreateAsset_def DeleteAsset_def AssetExists_def GetState_def DelState_def
        marshalAndPut_cases plainStub_def)
  show ?thesis
    using
      stored_keys_were_created [of fabricStub
        "[CreateAssetTx ''www.test.com'' [] 5 [] 300,
          UpdateAssetTx ''www.bbc.co.uk'' [] 10 [] 500,
          CreateAssetTx ''www.napier.ac.uk'' [] 15 [] 800,
          TransferAssetTx ''www.xxx.com'' ''flag'',
          CreateAssetTx ''www.google.com'' [] 5 [] 300,
          UpdateAssetTx ''www.test.com'' ''www.xxx.com'' 5 ''flag'' 400,
          DeleteAssetTx ''www.napier.ac.uk'']"]
      stored_keys_were_created [of plainStub
        "[InitLedgerTx, CreateAssetTx ''www.test.com'' [] 5 [] 300,
          DeleteAssetTx ''www.bbc.co.uk'']"]
    unfolding r1 r2 by (simp add: seedAssets_def)
qed

text \<open>
  C10. When the existence check of \<open>CreateAsset\<close>, \<open>UpdateAsset\<close> or \<open>DeleteAsset\<close>
  fails, or finds the key present (for \<open>CreateAsset\<close>) or absent (for the other two), and
  when the initial \<open>ReadAsset\<close> of \<open>TransferAsset\<close> fails (a read error, a missing key or
  bytes that do not decode), the operation returns that error and the world state is the
  one before the call.
\<close>

theorem early_error_writes_nothing:
  "(AssetExists h k w = Inl e \<longrightarrow>
       CreateAsset h k bl a2 a1 wfl w = (Inl e, w)
     \<and> UpdateAsset h k bl a2 a1 wfl w = (Inl e, w)
     \<and> DeleteAsset h k w = (Inl e, w))
   \<and> (AssetExists h k w = Inr True \<longrightarrow>
       CreateAsset h k bl a2 a1 wfl w = (Inl (DuplicateKeyError k), w))
   \<and> (AssetExists h k w = Inr False \<longrightarrow>
       UpdateAsset h k bl a2 a1 wfl w = (Inl (NotFoundError k), w)
     \<and> DeleteAsset h k w = (Inl (NotFoundError k), w))
   \<and> (ReadAsset h k w = Inl e' \<longrightarrow> TransferAsset h k new w = (Inl e', w))"
  by (simp add: CreateAsset_def UpdateAsset_def DeleteAsset_def TransferAsset_def)

theorem early_error_writes_nothing_witness:
  "AssetExists unreadableStub ''www.test.com'' [(''www.test.com'', ''{}'')]
     = Inl (StoreReadError ''state database unavailable'')
   \<and> CreateAsset unreadableStub ''www.test.com'' [] 5 [] 300 [(''www.test.com'', ''{}'')]
       = (Inl (StoreReadError ''state database unavailable''), [(''www.test.com'', ''{}'')])
   \<and> UpdateAsset unreadableStub ''www.test.com'' [] 5 [] 300 [(''www.test.com'', ''{}'')]
       = (Inl (StoreReadError ''state database unavailable''), [(''www.test.com'', ''{}'')])
   \<and> DeleteAsset unreadableStub ''www.test.com'' [(''www.test.com'', ''{}'')]
       = (Inl (StoreReadError ''state database unavailable''), [(''www.test.com'', ''{}'')])
   \<and> AssetExists plainStub ''www.test.com'' [(''www.test.com'', ''{}'')] = Inr True
   \<and> CreateAsset plainStub ''www.test.com'' [] 5 [] 300 [(''www.test.com'', ''{}'')]
       = (Inl (DuplicateKeyError ''www.test.com''), [(''www.test.com'', ''{}'')])
   \<and> AssetExists plainStub ''www.test.com'' [] = Inr False
   \<and> UpdateAsset plainStub ''www.test.com'' [] 5 [] 300 []
       = (Inl (NotFoundError ''www.test.com''), [])
   \<and> DeleteAsset plainStub ''www.test.com'' [] = (Inl (NotFoundError ''www.test.com''), [])
   \<and> ReadAsset plainStub ''www.test.com'' [(''www.test.com'', ''{'')] = Inl SyntaxError
   \<and> TransferAsset plainStub ''www.test.com'' ''flag'' [(''www.test.com'', ''{'')]
       = (Inl SyntaxError, [(''www.test.com'', ''{'')])"
proof -
  have a: "AssetExists unreadableStub ''www.test.com'' [(''www.test.com'', ''{}'')]
     = Inl (StoreReadError ''state database unavailable'')"
    by (simp add: AssetExists_def GetState_def unreadableStub_def)
  have b: "AssetExists plainStub ''www.test.com'' [(''www.test.com'', ''{}'')] = Inr True"
    by (simp add: AssetExists_def GetState_def plainStub_def)
  have c: "AssetExists plainStub ''www.test.com'' [] = Inr False"
    by (simp add: AssetExists_def GetState_def plainStub_def)
  have v: "\<not> checkValid ''{''"
    by (simp add: checkValid_def scanner_reset_def scanByte_def stateBeginValue_step_def
        stateBeginString_step_def isSpace_def goto_def pushParseState_def maxNestingDepth_def
        Let_def)
  have d: "ReadAsset plainStub ''www.test.com'' [(''www.test.com'', ''{'')] = Inl SyntaxError"
    by (simp add: ReadAsset_def GetState_def json_Unmarshal_def v plainStub_def)
  show ?thesis
    using a b c d
      early_error_writes_nothing [of unreadableStub "''www.test.com''"
        "[(''www.test.com'', ''{}'')]" "StoreReadError ''state database unavailable''"
        "[]" 5 "[]" 300 SyntaxError "''flag''"]
      early_error_writes_nothing [of plainStub "''www.test.com''"
        "[(''www.test.com'', ''{}'')]" "StoreReadError ''state database unavailable''"
        "[]" 5 "[]" 300 SyntaxError "''flag''"]
      early_error_writes_nothing [of plainStub "''www.test.com''"
        "[]" "StoreReadError ''state database unavailable''"
        "[]" 5 "[]" 300 SyntaxError "''flag''"]
      early_error_writes_nothing [of plainStub "''www.test.com''"
        "[(''www.test.com'', ''{'')]" "StoreReadError ''state database unavailable''"
        "[]" 5 "[]" 300 SyntaxError "''flag''"]
    by simp
qed

end
